theory Spec2Isabelle
  imports Complex_Main
begin

section \<open>Values of the platform\<close>

text \<open>
  A form field, an environment variable and a session slot each hold either nothing
  (\<open>undefined\<close>), \<open>null\<close>, or a string. The only test the handlers apply to such a value
  is JavaScript truthiness: \<open>undefined\<close>, \<open>null\<close> and the empty string are falsy, every
  other string is truthy. Form fields are taken to be plain strings (the nested objects
  and arrays that the extended URL-encoded parser can also produce are outside the model).
\<close>

datatype jsval = Undefined | Null | Str string

fun truthy :: "jsval \<Rightarrow> bool" where
  "truthy Undefined = False"
| "truthy Null = False"
| "truthy (Str s) = (s \<noteq> [])"

text \<open>The string held by a value; the handlers read it only after a truthiness test.\<close>

fun str_of :: "jsval \<Rightarrow> string" where
  "str_of (Str s) = s"
| "str_of Undefined = []"
| "str_of Null = []"

text \<open>\<open>a || b\<close> on such values.\<close>

definition js_or :: "jsval \<Rightarrow> jsval \<Rightarrow> jsval" where
  "js_or a b = (if truthy a then a else b)"

text \<open>
  A JavaScript number, as far as the handlers look at it: \<open>isNaN\<close> and the comparison
  \<open>\<le> 0\<close>. A finite double is read as the real number it denotes.
\<close>

datatype jsnum = NaN | Num real | PosInfinity | NegInfinity

fun isNaN :: "jsnum \<Rightarrow> bool" where
  "isNaN NaN = True"
| "isNaN (Num x) = False"
| "isNaN PosInfinity = False"
| "isNaN NegInfinity = False"

text \<open>\<open>n <= 0\<close>: false for \<open>NaN\<close>, as every comparison with \<open>NaN\<close> is.\<close>

fun le_zero :: "jsnum \<Rightarrow> bool" where
  "le_zero NaN = False"
| "le_zero (Num x) = (x \<le> 0)"
| "le_zero PosInfinity = False"
| "le_zero NegInfinity = True"

text \<open>
  The library functions the handlers call and that are not part of this program are
  parameters of the model: \<open>bcrypt.hash\<close> (the digest depends on the password and on a
  salt drawn by the library), \<open>bcrypt.compare\<close>, and the conversion \<open>Number\<close> of a string.
\<close>

record platform =
  bcrypt_hash :: "string \<Rightarrow> string \<Rightarrow> string"
  bcrypt_compare :: "string \<Rightarrow> string \<Rightarrow> bool"
  Number :: "string \<Rightarrow> jsnum"

text \<open>
  What the environment decides for one request: the ObjectId the driver generates for a
  document created by the request, the clock, the value of \<open>Math.random()\<close>, the salt of
  \<open>bcrypt.hash\<close>, and the local midnight that \<open>setHours(0, 0, 0, 0)\<close> computes. One
  request is handled at one instant.
\<close>

type_synonym oid = string
type_synonym date = int

record env =
  newId :: oid
  now :: date
  math_random :: real
  salt :: string
  todayStart :: date

record config =
  ADMIN_EMAIL :: jsval
  ADMIN_PASSWORD :: jsval
  BASE_URL :: jsval

section \<open>Models\<close>

datatype role = Affiliate | Admin

record user =
  user_id :: oid
  user_name :: string
  email :: string
  passwordHash :: string
  referralCode :: string
  role :: role
  user_createdAt :: date
  user_updatedAt :: date

record click =
  click_id :: oid
  click_affiliate :: oid
  ip :: jsval
  userAgent :: jsval
  click_createdAt :: date

datatype status = Pending | Approved | Rejected

record payout =
  payout_id :: oid
  payout_affiliate :: oid
  amount :: jsnum
  status :: status
  payout_createdAt :: date
  processedAt :: "date option"

text \<open>
  The three collections, in insertion order. An ObjectId is modelled by its hexadecimal
  string, so \<open>String(id)\<close> and \<open>id.toString()\<close> are the identity. The ids of new
  documents come from the driver, which is an input of each request; a lookup or an
  update by id reaches the first document of that id. The store is taken to be
  reachable: an operation fails only when it violates a unique index of the schema.
\<close>

record db =
  users :: "user list"
  clicks :: "click list"
  payouts :: "payout list"

datatype error = DuplicateKey string | TypeError string

definition User_findOne :: "(user \<Rightarrow> bool) \<Rightarrow> db \<Rightarrow> user option" where
  "User_findOne q d = find q (users d)"

definition User_findById :: "db \<Rightarrow> oid \<Rightarrow> user option" where
  "User_findById d i = find (\<lambda>u. user_id u = i) (users d)"

text \<open>\<open>email\<close> and \<open>referralCode\<close> carry a unique index: an insert that repeats either fails.\<close>

definition User_create :: "db \<Rightarrow> user \<Rightarrow> error + db" where
  "User_create d u =
     (if list_ex (\<lambda>v. email v = email u) (users d) then Inl (DuplicateKey ''email'')
      else if list_ex (\<lambda>v. referralCode v = referralCode u) (users d)
        then Inl (DuplicateKey ''referralCode'')
      else Inr (d\<lparr>users := users d @ [u]\<rparr>))"

text \<open>An update by id changes one document, the first of that id, or none.\<close>

primrec update_first :: "('a \<Rightarrow> bool) \<Rightarrow> ('a \<Rightarrow> 'a) \<Rightarrow> 'a list \<Rightarrow> 'a list" where
  "update_first q f [] = []"
| "update_first q f (x # xs) = (if q x then f x # xs else x # update_first q f xs)"

text \<open>
  \<open>user.save()\<close> after \<open>referralCode\<close> was assigned: the update writes the modified path
  and \<open>updatedAt\<close> to the document of that id, and fails when another document already
  holds the code.
\<close>

definition User_save :: "db \<Rightarrow> user \<Rightarrow> date \<Rightarrow> error + db" where
  "User_save d u t =
     (if list_ex (\<lambda>v. user_id v \<noteq> user_id u \<and> referralCode v = referralCode u) (users d)
        then Inl (DuplicateKey ''referralCode'')
      else Inr (d\<lparr>users :=
        update_first (\<lambda>v. user_id v = user_id u)
          (\<lambda>v. v\<lparr>referralCode := referralCode u, user_updatedAt := t\<rparr>) (users d)\<rparr>))"

definition Click_create :: "db \<Rightarrow> click \<Rightarrow> db" where
  "Click_create d c = d\<lparr>clicks := clicks d @ [c]\<rparr>"

definition Click_countDocuments :: "(click \<Rightarrow> bool) \<Rightarrow> db \<Rightarrow> nat" where
  "Click_countDocuments q d = length (filter q (clicks d))"

definition PayoutRequest_create :: "db \<Rightarrow> payout \<Rightarrow> db" where
  "PayoutRequest_create d p = d\<lparr>payouts := payouts d @ [p]\<rparr>"

definition PayoutRequest_findById :: "db \<Rightarrow> oid \<Rightarrow> payout option" where
  "PayoutRequest_findById d i = find (\<lambda>p. payout_id p = i) (payouts d)"

definition PayoutRequest_findByIdAndUpdate :: "db \<Rightarrow> oid \<Rightarrow> status \<Rightarrow> date \<Rightarrow> db" where
  "PayoutRequest_findByIdAndUpdate d i s t =
     d\<lparr>payouts :=
       update_first (\<lambda>p. payout_id p = i) (\<lambda>p. p\<lparr>status := s, processedAt := Some t\<rparr>)
         (payouts d)\<rparr>"

section \<open>Helpers\<close>

text \<open>
  Lower case on the letters A to Z; every other character is left as it is (names are
  read as ASCII text).
\<close>

definition toLowerCase_char :: "char \<Rightarrow> char" where
  "toLowerCase_char c =
     (case map_of (zip ''ABCDEFGHIJKLMNOPQRSTUVWXYZ'' ''abcdefghijklmnopqrstuvwxyz'') c of
        Some l \<Rightarrow> l
      | None \<Rightarrow> c)"

definition toLowerCase :: "string \<Rightarrow> string" where
  "toLowerCase s = map toLowerCase_char s"

definition digit_char :: "nat \<Rightarrow> char" where
  "digit_char d = ''0123456789'' ! d"

text \<open>The decimal numeral of a natural number, as string concatenation renders it.\<close>

fun string_of_nat :: "nat \<Rightarrow> string" where
  "string_of_nat n =
     (if n < 10 then [digit_char n]
      else string_of_nat (n div 10) @ [digit_char (n mod 10)])"

declare string_of_nat.simps [simp del]

text \<open>\<open>s.split(" ")[0]\<close>: the part of \<open>s\<close> before its first space character.\<close>

definition split_space_first :: "string \<Rightarrow> string" where
  "split_space_first s = takeWhile (\<lambda>c. c \<noteq> CHR '' '') s"

text \<open>\<open>s.slice(-4)\<close>: the last four characters, or all of \<open>s\<close> when it is shorter.\<close>

definition slice_last4 :: "string \<Rightarrow> string" where
  "slice_last4 s = drop (length s - 4) s"

text \<open>
  \<open>generateReferralCode(name, id)\<close>, on the string the caller passes as name (the name
  of the stored account); the third argument is the value \<open>Math.random()\<close> returns, a
  number \<open>r\<close> with \<open>0 \<le> r < 1\<close>, and the arithmetic on it is exact.
\<close>

definition generateReferralCode :: "string \<Rightarrow> oid \<Rightarrow> real \<Rightarrow> string" where
  "generateReferralCode nm i r =
     (let base = toLowerCase (split_space_first (if nm = [] then ''user'' else nm))
      in base @ slice_last4 i @ string_of_nat (nat \<lfloor>100 + r * 900\<rfloor>))"

datatype console = Console_log string | Console_error string error

definition ensureAdminUser :: "platform \<Rightarrow> config \<Rightarrow> env \<Rightarrow> db \<Rightarrow> console \<times> db" where
  "ensureAdminUser lib cfg e d =
     (if \<not> truthy (ADMIN_EMAIL cfg) \<or> \<not> truthy (ADMIN_PASSWORD cfg)
        then (Console_log ''Set ADMIN_EMAIL and ADMIN_PASSWORD in env.'', d)
      else
        (case User_findOne (\<lambda>u. email u = str_of (ADMIN_EMAIL cfg) \<and> role u = Admin) d of
           Some admin \<Rightarrow>
             (Console_log (''Admin already exists: '' @ str_of (ADMIN_EMAIL cfg)), d)
         | None \<Rightarrow>
             (case User_create d
                \<lparr>user_id = newId e, user_name = ''Super Admin'',
                 email = str_of (ADMIN_EMAIL cfg),
                 passwordHash = bcrypt_hash lib (str_of (ADMIN_PASSWORD cfg)) (salt e),
                 referralCode = ''admin'', role = Admin,
                 user_createdAt = now e, user_updatedAt = now e\<rparr> of
                Inl err \<Rightarrow> (Console_error ''MongoDB error:'' err, d)
              | Inr d' \<Rightarrow>
                  (Console_log (''Admin created: '' @ str_of (ADMIN_EMAIL cfg)), d'))))"

section \<open>Session and middlewares\<close>

text \<open>
  The two identity slots of a session. The record is extensible: whatever else the
  session holds is its \<open>more\<close> part.
\<close>

record session =
  userId :: jsval
  adminId :: jsval

record locals =
  currentUser :: "user option"
  adminUser :: "user option"

definition loadSessionData :: "db \<Rightarrow> 'a session_scheme \<Rightarrow> locals" where
  "loadSessionData d s =
     \<lparr>currentUser =
        (if truthy (userId s) then User_findById d (str_of (userId s)) else None),
      adminUser =
        (if truthy (adminId s) then User_findById d (str_of (adminId s)) else None)\<rparr>"

datatype response =
    Render string "string option"
  | RenderDashboard string nat nat "payout list"
  | RenderAdminDashboard nat nat nat
  | RenderAffiliates "user list"
  | RenderClicks "(click \<times> user option) list"
  | RenderPayouts "(payout \<times> user option) list"
  | Redirect string
  | Send nat string
  | Uncaught error

text \<open>A guard either answers the request itself or calls \<open>next()\<close>, which is \<open>None\<close>.\<close>

definition requireAffiliate :: "'a session_scheme \<Rightarrow> response option" where
  "requireAffiliate s = (if \<not> truthy (userId s) then Some (Redirect ''/login'') else None)"

definition requireAdmin :: "'a session_scheme \<Rightarrow> response option" where
  "requireAdmin s = (if \<not> truthy (adminId s) then Some (Redirect ''/admin/login'') else None)"

section \<open>Routes\<close>

text \<open>
  Each handler returns the response and the store and session it leaves behind. The
  messages are the ones of the source: on the registration form
  \<open>Sab field bhar do.\<close> reports a blank field, \<open>Ye email already registered hai.\<close> a
  duplicate email and \<open>Error aaya.\<close> any error caught; on the login form
  \<open>Galat email ya password.\<close> reports invalid credentials.
\<close>

definition get_root :: "'a session_scheme \<Rightarrow> response" where
  "get_root s =
     (if truthy (userId s) then Redirect ''/dashboard''
      else if truthy (adminId s) then Redirect ''/admin''
      else Redirect ''/login'')"

definition post_register ::
  "platform \<Rightarrow> env \<Rightarrow> db \<Rightarrow> 'a session_scheme \<Rightarrow> jsval \<Rightarrow> jsval \<Rightarrow> jsval
     \<Rightarrow> response \<times> db \<times> 'a session_scheme" where
  "post_register lib e d s name_field email_field password_field =
     (if \<not> truthy name_field \<or> \<not> truthy email_field \<or> \<not> truthy password_field
        then (Render ''register'' (Some ''Sab field bhar do.''), d, s)
      else
        (case User_findOne (\<lambda>u. email u = str_of email_field) d of
           Some existing \<Rightarrow>
             (Render ''register'' (Some ''Ye email already registered hai.''), d, s)
         | None \<Rightarrow>
             (let user =
                \<lparr>user_id = newId e, user_name = str_of name_field,
                 email = str_of email_field,
                 passwordHash = bcrypt_hash lib (str_of password_field) (salt e),
                 referralCode = ''temp'', role = Affiliate,
                 user_createdAt = now e, user_updatedAt = now e\<rparr>
              in
                (case User_create d user of
                   Inl err \<Rightarrow> (Render ''register'' (Some ''Error aaya.''), d, s)
                 | Inr d1 \<Rightarrow>
                     (let user' =
                        user\<lparr>referralCode :=
                          generateReferralCode (user_name user) (user_id user)
                            (math_random e)\<rparr>
                      in
                        (case User_save d1 user' (now e) of
                           Inl err \<Rightarrow> (Render ''register'' (Some ''Error aaya.''), d1, s)
                         | Inr d2 \<Rightarrow>
                             (Redirect ''/dashboard'', d2,
                              s\<lparr>userId := Str (user_id user)\<rparr>)))))))"

definition post_login ::
  "platform \<Rightarrow> db \<Rightarrow> 'a session_scheme \<Rightarrow> jsval \<Rightarrow> jsval \<Rightarrow> response \<times> 'a session_scheme" where
  "post_login lib d s email_field password_field =
     (if \<not> truthy email_field \<or> \<not> truthy password_field
        then (Render ''login'' (Some ''Email aur password dalo.''), s)
      else
        (case User_findOne (\<lambda>u. email u = str_of email_field \<and> role u = Affiliate) d of
           None \<Rightarrow> (Render ''login'' (Some ''Galat email ya password.''), s)
         | Some user \<Rightarrow>
             (if \<not> bcrypt_compare lib (str_of password_field) (passwordHash user)
                then (Render ''login'' (Some ''Galat email ya password.''), s)
              else (Redirect ''/dashboard'', s\<lparr>userId := Str (user_id user)\<rparr>))))"

definition get_logout :: "'a session_scheme \<Rightarrow> response \<times> 'a session_scheme" where
  "get_logout s = (Redirect ''/login'', s\<lparr>userId := Null\<rparr>)"

text \<open>
  The dashboard reads \<open>res.locals.currentUser\<close>; when the id of the session resolves to
  no account that value is \<open>null\<close> and reading its \<open>referralCode\<close> throws. Documents of the
  same \<open>createdAt\<close> are listed in insertion order.
\<close>

definition get_dashboard :: "config \<Rightarrow> env \<Rightarrow> db \<Rightarrow> 'a session_scheme \<Rightarrow> response" where
  "get_dashboard cfg e d s =
     (case requireAffiliate s of
        Some r \<Rightarrow> r
      | None \<Rightarrow>
          (case currentUser (loadSessionData d s) of
             None \<Rightarrow> Uncaught (TypeError ''Cannot read properties of null'')
           | Some user \<Rightarrow>
               (let baseUrl = str_of (js_or (BASE_URL cfg) (Str ''http://localhost:3000''));
                    referralLink = baseUrl @ ''/r/'' @ referralCode user;
                    totalClicks =
                      Click_countDocuments (\<lambda>c. click_affiliate c = user_id user) d;
                    todayClicks =
                      Click_countDocuments
                        (\<lambda>c. click_affiliate c = user_id user \<and> todayStart e \<le> click_createdAt c)
                        d;
                    history =
                      sort_key (\<lambda>p. - payout_createdAt p)
                        (filter (\<lambda>p. payout_affiliate p = user_id user) (payouts d))
                in RenderDashboard referralLink totalClicks todayClicks history)))"

definition post_payout_request ::
  "platform \<Rightarrow> env \<Rightarrow> db \<Rightarrow> 'a session_scheme \<Rightarrow> jsval \<Rightarrow> response \<times> db" where
  "post_payout_request lib e d s amount_field =
     (case requireAffiliate s of
        Some r \<Rightarrow> (r, d)
      | None \<Rightarrow>
          (if \<not> truthy amount_field \<or> isNaN (Number lib (str_of amount_field))
              \<or> le_zero (Number lib (str_of amount_field))
             then (Redirect ''/dashboard'', d)
           else
             (Redirect ''/dashboard'',
              PayoutRequest_create d
                \<lparr>payout_id = newId e, payout_affiliate = str_of (userId s),
                 amount = Number lib (str_of amount_field), status = Pending,
                 payout_createdAt = now e, processedAt = None\<rparr>)))"

text \<open>What \<open>GET /r/:code\<close> reads of the request besides the code.\<close>

record request_meta =
  x_forwarded_for :: jsval
  remoteAddress :: jsval
  user_agent :: jsval

definition get_r :: "env \<Rightarrow> db \<Rightarrow> string \<Rightarrow> request_meta \<Rightarrow> response \<times> db" where
  "get_r e d code m =
     (case User_findOne (\<lambda>u. referralCode u = code \<and> role u = Affiliate) d of
        None \<Rightarrow> (Send 404 ''Invalid referral link'', d)
      | Some user \<Rightarrow>
          (Send 200 (''You clicked referral of '' @ user_name user @ ''.''),
           Click_create d
             \<lparr>click_id = newId e, click_affiliate = user_id user,
              ip = js_or (x_forwarded_for m) (remoteAddress m),
              userAgent = user_agent m, click_createdAt = now e\<rparr>))"

text \<open>
  The admin login tests no field for blankness: a missing email matches no account, and
  \<open>bcrypt.compare\<close> rejects a password that is not a string.
\<close>

definition post_admin_login ::
  "platform \<Rightarrow> db \<Rightarrow> 'a session_scheme \<Rightarrow> jsval \<Rightarrow> jsval \<Rightarrow> response \<times> 'a session_scheme" where
  "post_admin_login lib d s email_field password_field =
     (case User_findOne (\<lambda>u. Str (email u) = email_field \<and> role u = Admin) d of
        None \<Rightarrow> (Render ''admin-login'' (Some ''Admin not found''), s)
      | Some admin \<Rightarrow>
          (case password_field of
             Str pw \<Rightarrow>
               (if \<not> bcrypt_compare lib pw (passwordHash admin)
                  then (Render ''admin-login'' (Some ''Wrong password''), s)
                else (Redirect ''/admin'', s\<lparr>adminId := Str (user_id admin)\<rparr>))
           | _ \<Rightarrow> (Uncaught (TypeError ''Illegal arguments''), s)))"

definition get_admin_logout :: "'a session_scheme \<Rightarrow> response \<times> 'a session_scheme" where
  "get_admin_logout s = (Redirect ''/admin/login'', s\<lparr>adminId := Null\<rparr>)"

definition get_admin :: "db \<Rightarrow> 'a session_scheme \<Rightarrow> response" where
  "get_admin d s =
     (case requireAdmin s of
        Some r \<Rightarrow> r
      | None \<Rightarrow>
          RenderAdminDashboard
            (length (filter (\<lambda>u. role u = Affiliate) (users d)))
            (Click_countDocuments (\<lambda>c. True) d)
            (length (filter (\<lambda>p. status p = Pending) (payouts d))))"

definition get_admin_affiliates :: "db \<Rightarrow> 'a session_scheme \<Rightarrow> response" where
  "get_admin_affiliates d s =
     (case requireAdmin s of
        Some r \<Rightarrow> r
      | None \<Rightarrow> RenderAffiliates (filter (\<lambda>u. role u = Affiliate) (users d)))"

definition get_admin_clicks :: "db \<Rightarrow> 'a session_scheme \<Rightarrow> response" where
  "get_admin_clicks d s =
     (case requireAdmin s of
        Some r \<Rightarrow> r
      | None \<Rightarrow>
          RenderClicks
            (map (\<lambda>c. (c, User_findById d (click_affiliate c)))
               (take 100 (sort_key (\<lambda>c. - click_createdAt c) (clicks d)))))"

definition get_admin_payouts :: "db \<Rightarrow> 'a session_scheme \<Rightarrow> response" where
  "get_admin_payouts d s =
     (case requireAdmin s of
        Some r \<Rightarrow> r
      | None \<Rightarrow> RenderPayouts (map (\<lambda>p. (p, User_findById d (payout_affiliate p))) (payouts d)))"

text \<open>
  The two adjudication routes. The route parameter is taken to be a well-formed ObjectId;
  an id that names no request changes nothing.
\<close>

definition post_approve :: "env \<Rightarrow> db \<Rightarrow> 'a session_scheme \<Rightarrow> oid \<Rightarrow> response \<times> db" where
  "post_approve e d s i =
     (case requireAdmin s of
        Some r \<Rightarrow> (r, d)
      | None \<Rightarrow> (Redirect ''/admin/payouts'', PayoutRequest_findByIdAndUpdate d i Approved (now e)))"

definition post_reject :: "env \<Rightarrow> db \<Rightarrow> 'a session_scheme \<Rightarrow> oid \<Rightarrow> response \<times> db" where
  "post_reject e d s i =
     (case requireAdmin s of
        Some r \<Rightarrow> (r, d)
      | None \<Rightarrow> (Redirect ''/admin/payouts'', PayoutRequest_findByIdAndUpdate d i Rejected (now e)))"

section \<open>The application\<close>

datatype request =
    GetRoot
  | GetRegister
  | PostRegister jsval jsval jsval
  | GetLogin
  | PostLogin jsval jsval
  | GetLogout
  | GetDashboard
  | PostPayoutRequest jsval
  | GetR string request_meta
  | GetAdminLogin
  | PostAdminLogin jsval jsval
  | GetAdminLogout
  | GetAdmin
  | GetAdminAffiliates
  | GetAdminClicks
  | GetAdminPayouts
  | PostApprove oid
  | PostReject oid

fun handle ::
  "platform \<Rightarrow> config \<Rightarrow> env \<Rightarrow> request \<Rightarrow> db \<Rightarrow> session \<Rightarrow> response \<times> db \<times> session" where
  "handle lib cfg e GetRoot d s = (get_root s, d, s)"
| "handle lib cfg e GetRegister d s = (Render ''register'' None, d, s)"
| "handle lib cfg e (PostRegister n m p) d s = post_register lib e d s n m p"
| "handle lib cfg e GetLogin d s = (Render ''login'' None, d, s)"
| "handle lib cfg e (PostLogin m p) d s =
     (let (r, s') = post_login lib d s m p in (r, d, s'))"
| "handle lib cfg e GetLogout d s = (let (r, s') = get_logout s in (r, d, s'))"
| "handle lib cfg e GetDashboard d s = (get_dashboard cfg e d s, d, s)"
| "handle lib cfg e (PostPayoutRequest a) d s =
     (let (r, d') = post_payout_request lib e d s a in (r, d', s))"
| "handle lib cfg e (GetR code m) d s = (let (r, d') = get_r e d code m in (r, d', s))"
| "handle lib cfg e GetAdminLogin d s = (Render ''admin-login'' None, d, s)"
| "handle lib cfg e (PostAdminLogin m p) d s =
     (let (r, s') = post_admin_login lib d s m p in (r, d, s'))"
| "handle lib cfg e GetAdminLogout d s = (let (r, s') = get_admin_logout s in (r, d, s'))"
| "handle lib cfg e GetAdmin d s = (get_admin d s, d, s)"
| "handle lib cfg e GetAdminAffiliates d s = (get_admin_affiliates d s, d, s)"
| "handle lib cfg e GetAdminClicks d s = (get_admin_clicks d s, d, s)"
| "handle lib cfg e GetAdminPayouts d s = (get_admin_payouts d s, d, s)"
| "handle lib cfg e (PostApprove i) d s = (let (r, d') = post_approve e d s i in (r, d', s))"
| "handle lib cfg e (PostReject i) d s = (let (r, d') = post_reject e d s i in (r, d', s))"

text \<open>
  A run of the system: the process starts (the admin bootstrap runs, and the sessions,
  which the default store keeps in memory, are gone), or a request arrives on one of
  the sessions.
\<close>

datatype event = Startup config env | Request nat env request

record system =
  config_of :: config
  store :: db
  sessions :: "nat \<Rightarrow> session"

definition step :: "platform \<Rightarrow> event \<Rightarrow> system \<Rightarrow> system" where
  "step lib ev sys =
     (case ev of
        Startup cfg e \<Rightarrow>
          \<lparr>config_of = cfg, store = snd (ensureAdminUser lib cfg e (store sys)),
           sessions = (\<lambda>k. \<lparr>userId = Undefined, adminId = Undefined\<rparr>)\<rparr>
      | Request k e rq \<Rightarrow>
          (let (r, d', s') = handle lib (config_of sys) e rq (store sys) (sessions sys k)
           in sys\<lparr>store := d', sessions := (sessions sys)(k := s')\<rparr>))"

definition run :: "platform \<Rightarrow> event list \<Rightarrow> system \<Rightarrow> system" where
  "run lib evs sys = fold (step lib) evs sys"

text \<open>
  The first whitespace-delimited token of a string, as the specification words the base
  of a referral code: leading whitespace is skipped and the token ends at the next
  whitespace character (space, tab, line feed, vertical tab, form feed, carriage return).
\<close>

definition is_whitespace :: "char \<Rightarrow> bool" where
  "is_whitespace c = (c \<in> set [CHR '' '', CHR 0x09, CHR 0x0A, CHR 0x0B, CHR 0x0C, CHR 0x0D])"

definition spec_first_token :: "string \<Rightarrow> string" where
  "spec_first_token s = takeWhile (\<lambda>c. \<not> is_whitespace c) (dropWhile is_whitespace s)"

section \<open>Properties of the store that the theorems speak about\<close>

text \<open>A payout request is settled when it exists and its status is no longer pending.\<close>

definition settled :: "db \<Rightarrow> oid \<Rightarrow> bool" where
  "settled d i =
     (case PayoutRequest_findById d i of None \<Rightarrow> False | Some p \<Rightarrow> status p \<noteq> Pending)"

text \<open>The click counts the dashboard shows for an account: all time, and since a midnight.\<close>

definition totalClicks :: "db \<Rightarrow> oid \<Rightarrow> nat" where
  "totalClicks d a = Click_countDocuments (\<lambda>c. click_affiliate c = a) d"

definition todayClicks :: "db \<Rightarrow> oid \<Rightarrow> date \<Rightarrow> nat" where
  "todayClicks d a t0 =
     Click_countDocuments (\<lambda>c. click_affiliate c = a \<and> t0 \<le> click_createdAt c) d"

section \<open>A concrete installation\<close>

text \<open>
  Concrete values on which the theorems below are instantiated: a platform whose digest
  is the salt followed by the password, a configuration naming an administrator, and a
  system with an empty store and no session.
\<close>

definition example_platform :: platform where
  "example_platform =
     \<lparr>bcrypt_hash = (\<lambda>p s. s @ p), bcrypt_compare = (\<lambda>p h. h = ''salt'' @ p),
      Number = (\<lambda>s. if s = ''50'' then Num 50 else if s = ''-5'' then Num (- 5) else NaN)\<rparr>"

definition example_env :: "oid \<Rightarrow> date \<Rightarrow> env" where
  "example_env i t =
     \<lparr>newId = i, now = t, math_random = 1 / 2, salt = ''salt'', todayStart = 0\<rparr>"

definition example_config :: config where
  "example_config =
     \<lparr>ADMIN_EMAIL = Str ''root@example.com'', ADMIN_PASSWORD = Str ''secret'',
      BASE_URL = Undefined\<rparr>"

definition empty_db :: db where
  "empty_db = \<lparr>users = [], clicks = [], payouts = []\<rparr>"

definition initial_system :: system where
  "initial_system =
     \<lparr>config_of = example_config, store = empty_db,
      sessions = (\<lambda>k. \<lparr>userId = Undefined, adminId = Undefined\<rparr>)\<rparr>"

text \<open>
  The process starts and creates the administrator; Asha Rao registers and asks for a
  payout of 50; the administrator logs in on another session and approves the request.
\<close>

definition example_events :: "event list" where
  "example_events =
     [Startup example_config (example_env ''65a000000000000000000001'' 1),
      Request 1 (example_env ''65a000000000000000001234'' 2)
        (PostRegister (Str ''Asha Rao'') (Str ''asha@example.com'') (Str ''pw'')),
      Request 1 (example_env ''65a000000000000000000003'' 3) (PostPayoutRequest (Str ''50'')),
      Request 2 (example_env ''65a000000000000000000004'' 4)
        (PostAdminLogin (Str ''root@example.com'') (Str ''secret'')),
      Request 2 (example_env ''65a000000000000000000005'' 5)
        (PostApprove ''65a000000000000000000003'')]"

definition example_reject :: event where
  "example_reject =
     Request 2 (example_env ''65a000000000000000000006'' 6)
       (PostReject ''65a000000000000000000003'')"

definition asha :: user where
  "asha =
     \<lparr>user_id = ''65a000000000000000001234'', user_name = ''Asha Rao'',
      email = ''asha@example.com'', passwordHash = ''saltpw'',
      referralCode = ''asha1234550'', role = Affiliate,
      user_createdAt = 2, user_updatedAt = 2\<rparr>"

definition root_admin :: user where
  "root_admin =
     \<lparr>user_id = ''65a000000000000000000001'', user_name = ''Super Admin'',
      email = ''root@example.com'', passwordHash = ''saltsecret'',
      referralCode = ''admin'', role = Admin,
      user_createdAt = 1, user_updatedAt = 1\<rparr>"

definition example_db :: db where
  "example_db = \<lparr>users = [root_admin, asha], clicks = [], payouts = []\<rparr>"

section \<open>Evaluation\<close>

lemmas example_defs =
  example_platform_def example_env_def example_config_def initial_system_def empty_db_def
  example_events_def example_reject_def asha_def root_admin_def example_db_def

lemmas handler_defs =
  run_def step_def ensureAdminUser_def User_findOne_def User_findById_def User_create_def
  User_save_def post_register_def post_login_def post_payout_request_def
  post_admin_login_def post_approve_def post_reject_def get_r_def requireAdmin_def
  requireAffiliate_def loadSessionData_def PayoutRequest_create_def
  PayoutRequest_findById_def PayoutRequest_findByIdAndUpdate_def Click_create_def
  Click_countDocuments_def js_or_def

lemmas code_defs =
  generateReferralCode_def toLowerCase_def toLowerCase_char_def split_space_first_def
  slice_last4_def string_of_nat.simps digit_char_def Let_def

lemma example_run_store:
  "store (run example_platform
     [Startup example_config (example_env ''65a000000000000000000001'' 1),
      Request 1 (example_env ''65a000000000000000001234'' 2)
        (PostRegister (Str ''Asha Rao'') (Str ''asha@example.com'') (Str ''pw''))]
     initial_system) = example_db"
  by (simp add: example_defs handler_defs code_defs)

section \<open>Logout\<close>

text \<open>
  C8. Logout is slot-local. The affiliate logout writes \<open>null\<close> to the affiliate slot and
  leaves the admin slot and everything else the session holds as they were; the admin
  logout writes \<open>null\<close> to the admin slot and leaves the affiliate slot and everything else
  as they were. Neither touches the store.
\<close>

theorem logout_slot_local:
  "userId (snd (get_logout s)) = Null
   \<and> adminId (snd (get_logout s)) = adminId s
   \<and> session.more (snd (get_logout s)) = session.more s
   \<and> adminId (snd (get_admin_logout s)) = Null
   \<and> userId (snd (get_admin_logout s)) = userId s
   \<and> session.more (snd (get_admin_logout s)) = session.more s
   \<and> handle lib cfg e GetLogout d t = (Redirect ''/login'', d, t\<lparr>userId := Null\<rparr>)
   \<and> handle lib cfg e GetAdminLogout d t = (Redirect ''/admin/login'', d, t\<lparr>adminId := Null\<rparr>)"
  by (simp add: get_logout_def get_admin_logout_def)

section \<open>Route guards\<close>

text \<open>
  C10. The guards test only that the slot of the session is set. \<open>requireAffiliate\<close> lets
  a request through exactly when the affiliate id of the session is truthy and redirects
  to \<open>/login\<close> otherwise; \<open>requireAdmin\<close> does the same with the admin id and
  \<open>/admin/login\<close>. When the stored id resolves to no account, the current user that
  \<open>loadSessionData\<close> computes is \<open>null\<close> and the guard lets the request through all the same.
\<close>

theorem guards_test_slot_only:
  "(requireAffiliate s = None \<longleftrightarrow> truthy (userId s))
   \<and> (\<not> truthy (userId s) \<longrightarrow> requireAffiliate s = Some (Redirect ''/login''))
   \<and> (requireAdmin s = None \<longleftrightarrow> truthy (adminId s))
   \<and> (\<not> truthy (adminId s) \<longrightarrow> requireAdmin s = Some (Redirect ''/admin/login''))
   \<and> (truthy (userId s) \<and> User_findById d (str_of (userId s)) = None \<longrightarrow>
        currentUser (loadSessionData d s) = None \<and> requireAffiliate s = None)
   \<and> (truthy (adminId s) \<and> User_findById d (str_of (adminId s)) = None \<longrightarrow>
        adminUser (loadSessionData d s) = None \<and> requireAdmin s = None)"
  by (simp add: requireAffiliate_def requireAdmin_def loadSessionData_def)

theorem guards_test_slot_only_witness:
  "truthy (userId \<lparr>userId = Str ''65a000000000000000009999'', adminId = Str ''65a000000000000000008888''\<rparr>)
   \<and> User_findById example_db ''65a000000000000000009999'' = None
   \<and> currentUser (loadSessionData example_db
        \<lparr>userId = Str ''65a000000000000000009999'', adminId = Str ''65a000000000000000008888''\<rparr>) = None
   \<and> requireAffiliate
        \<lparr>userId = Str ''65a000000000000000009999'', adminId = Str ''65a000000000000000008888''\<rparr> = None
   \<and> User_findById example_db ''65a000000000000000008888'' = None
   \<and> adminUser (loadSessionData example_db
        \<lparr>userId = Str ''65a000000000000000009999'', adminId = Str ''65a000000000000000008888''\<rparr>) = None
   \<and> requireAdmin
        \<lparr>userId = Str ''65a000000000000000009999'', adminId = Str ''65a000000000000000008888''\<rparr> = None
   \<and> requireAffiliate \<lparr>userId = Null, adminId = Undefined\<rparr> = Some (Redirect ''/login'')
   \<and> requireAdmin \<lparr>userId = Null, adminId = Undefined\<rparr> = Some (Redirect ''/admin/login'')"
  using guards_test_slot_only
    [of "\<lparr>userId = Str ''65a000000000000000009999'', adminId = Str ''65a000000000000000008888''\<rparr>"
      example_db]
    guards_test_slot_only [of "\<lparr>userId = Null, adminId = Undefined\<rparr>" example_db]
  by (simp add: User_findById_def example_defs)

section \<open>Registration\<close>

lemma find_None_iff_set: "find q xs = None \<longleftrightarrow> \<not> (\<exists>x \<in> set xs. q x)"
  by (induction xs) auto

lemma find_Some_set: "find q xs = Some x \<Longrightarrow> x \<in> set xs \<and> q x"
  by (induction xs) (auto split: if_splits)

text \<open>
  C3. A registration with a blank field (missing or empty) renders the validation
  message and leaves store and session as they were. A registration whose fields are all
  filled in and whose email is the email of an existing account, whatever the role of
  that account, renders the duplicate-email message and leaves store and session as
  they were: no account is created. The blank-field test comes first in the handler, so
  in every request whose email is the email of an existing account the registration
  fails with one of the two messages and the store is unchanged.
\<close>

theorem register_rejects_blank_and_duplicate:
  "(\<not> truthy n \<or> \<not> truthy m \<or> \<not> truthy p \<longrightarrow>
      post_register lib e d s n m p = (Render ''register'' (Some ''Sab field bhar do.''), d, s))
   \<and> (truthy n \<and> truthy m \<and> truthy p \<and> (\<exists>u \<in> set (users d). email u = str_of m) \<longrightarrow>
      post_register lib e d s n m p =
        (Render ''register'' (Some ''Ye email already registered hai.''), d, s))
   \<and> ((\<exists>u \<in> set (users d). email u = str_of m) \<longrightarrow>
      post_register lib e d s n m p =
        (Render ''register''
           (Some (if truthy n \<and> truthy m \<and> truthy p then ''Ye email already registered hai.''
                  else ''Sab field bhar do.'')), d, s))"
proof (intro conjI impI)
  assume "\<not> truthy n \<or> \<not> truthy m \<or> \<not> truthy p"
  then show "post_register lib e d s n m p =
      (Render ''register'' (Some ''Sab field bhar do.''), d, s)"
    by (auto simp: post_register_def)
next
  assume a: "truthy n \<and> truthy m \<and> truthy p \<and> (\<exists>u \<in> set (users d). email u = str_of m)"
  then have "User_findOne (\<lambda>u. email u = str_of m) d \<noteq> None"
    by (simp add: User_findOne_def find_None_iff_set)
  then obtain x where "User_findOne (\<lambda>u. email u = str_of m) d = Some x"
    by auto
  with a show "post_register lib e d s n m p =
      (Render ''register'' (Some ''Ye email already registered hai.''), d, s)"
    by (simp add: post_register_def)
next
  assume "\<exists>u \<in> set (users d). email u = str_of m"
  then have "User_findOne (\<lambda>u. email u = str_of m) d \<noteq> None"
    by (simp add: User_findOne_def find_None_iff_set)
  then obtain x where "User_findOne (\<lambda>u. email u = str_of m) d = Some x"
    by auto
  then show "post_register lib e d s n m p =
      (Render ''register''
         (Some (if truthy n \<and> truthy m \<and> truthy p then ''Ye email already registered hai.''
                else ''Sab field bhar do.'')), d, s)"
    by (simp add: post_register_def)
qed

theorem register_rejects_blank_and_duplicate_witness:
  "post_register example_platform (example_env ''65a000000000000000000007'' 7) example_db
      \<lparr>userId = Undefined, adminId = Undefined\<rparr> (Str ''Mallory'') (Str []) (Str ''pw'') =
     (Render ''register'' (Some ''Sab field bhar do.''), example_db,
      \<lparr>userId = Undefined, adminId = Undefined\<rparr>)
   \<and> root_admin \<in> set (users example_db) \<and> role root_admin = Admin
   \<and> post_register example_platform (example_env ''65a000000000000000000007'' 7) example_db
      \<lparr>userId = Undefined, adminId = Undefined\<rparr>
      (Str ''Mallory'') (Str ''root@example.com'') (Str ''pw'') =
     (Render ''register'' (Some ''Ye email already registered hai.''), example_db,
      \<lparr>userId = Undefined, adminId = Undefined\<rparr>)"
  using register_rejects_blank_and_duplicate
    [of "Str ''Mallory''" "Str []" "Str ''pw''" example_platform
      "example_env ''65a000000000000000000007'' 7" example_db
      "\<lparr>userId = Undefined, adminId = Undefined\<rparr>"]
    register_rejects_blank_and_duplicate
    [of "Str ''Mallory''" "Str ''root@example.com''" "Str ''pw''" example_platform
      "example_env ''65a000000000000000000007'' 7" example_db
      "\<lparr>userId = Undefined, adminId = Undefined\<rparr>"]
  by (simp add: example_db_def root_admin_def asha_def)

section \<open>Affiliate login\<close>

lemma no_affiliate_with_admin_email:
  assumes "distinct (map email (users d))" and "u \<in> set (users d)" and "role u = Admin"
  shows "User_findOne (\<lambda>v. email v = email u \<and> role v = Affiliate) d = None"
proof -
  have inj: "inj_on email (set (users d))"
    using assms(1) by (simp add: distinct_map)
  have "\<not> (\<exists>v \<in> set (users d). email v = email u \<and> role v = Affiliate)"
  proof
    assume "\<exists>v \<in> set (users d). email v = email u \<and> role v = Affiliate"
    then obtain v where v: "v \<in> set (users d)" "email v = email u" "role v = Affiliate"
      by auto
    from inj v(1) assms(2) v(2) have "v = u"
      by (auto dest: inj_onD)
    with v(3) assms(3) show False by simp
  qed
  then show ?thesis
    by (simp add: User_findOne_def find_None_iff_set)
qed

text \<open>
  C5. The affiliate login looks the account up by email and role affiliate. In a store
  whose emails are distinct, as the unique index keeps them, a login with the email of an
  admin-role account fails for every password, the right one included: the login form is
  rendered with an error and the session is unchanged. With both fields filled in, the
  response when no affiliate-role account has the email and the response when the
  password does not match are the same, \<open>Galat email ya password.\<close>
\<close>

theorem affiliate_login_role_scoped:
  "(distinct (map email (users d)) \<and> u \<in> set (users d) \<and> role u = Admin \<longrightarrow>
      post_login lib d s (Str (email u)) pw =
        (Render ''login''
           (Some (if truthy (Str (email u)) \<and> truthy pw then ''Galat email ya password.''
                  else ''Email aur password dalo.'')), s))
   \<and> (truthy m \<and> truthy p
        \<and> User_findOne (\<lambda>v. email v = str_of m \<and> role v = Affiliate) d = None \<longrightarrow>
      post_login lib d s m p = (Render ''login'' (Some ''Galat email ya password.''), s))
   \<and> (truthy m \<and> truthy p
        \<and> User_findOne (\<lambda>v. email v = str_of m \<and> role v = Affiliate) d = Some a
        \<and> \<not> bcrypt_compare lib (str_of p) (passwordHash a) \<longrightarrow>
      post_login lib d s m p = (Render ''login'' (Some ''Galat email ya password.''), s))"
proof (intro conjI impI)
  assume a: "distinct (map email (users d)) \<and> u \<in> set (users d) \<and> role u = Admin"
  then have "User_findOne (\<lambda>v. email v = email u \<and> role v = Affiliate) d = None"
    by (simp add: no_affiliate_with_admin_email)
  then show "post_login lib d s (Str (email u)) pw =
      (Render ''login''
         (Some (if truthy (Str (email u)) \<and> truthy pw then ''Galat email ya password.''
                else ''Email aur password dalo.'')), s)"
    by (simp add: post_login_def)
next
  assume "truthy m \<and> truthy p
      \<and> User_findOne (\<lambda>v. email v = str_of m \<and> role v = Affiliate) d = None"
  then show "post_login lib d s m p = (Render ''login'' (Some ''Galat email ya password.''), s)"
    by (simp add: post_login_def)
next
  assume "truthy m \<and> truthy p
      \<and> User_findOne (\<lambda>v. email v = str_of m \<and> role v = Affiliate) d = Some a
      \<and> \<not> bcrypt_compare lib (str_of p) (passwordHash a)"
  then show "post_login lib d s m p = (Render ''login'' (Some ''Galat email ya password.''), s)"
    by (simp add: post_login_def)
qed

theorem affiliate_login_role_scoped_witness:
  "distinct (map email (users example_db)) \<and> root_admin \<in> set (users example_db)
   \<and> role root_admin = Admin
   \<and> bcrypt_compare example_platform ''secret'' (passwordHash root_admin)
   \<and> post_login example_platform example_db \<lparr>userId = Undefined, adminId = Undefined\<rparr>
        (Str ''root@example.com'') (Str ''secret'') =
       (Render ''login'' (Some ''Galat email ya password.''),
        \<lparr>userId = Undefined, adminId = Undefined\<rparr>)
   \<and> post_login example_platform example_db \<lparr>userId = Undefined, adminId = Undefined\<rparr>
        (Str ''nobody@example.com'') (Str ''pw'') =
       (Render ''login'' (Some ''Galat email ya password.''),
        \<lparr>userId = Undefined, adminId = Undefined\<rparr>)
   \<and> User_findOne (\<lambda>v. email v = ''asha@example.com'' \<and> role v = Affiliate) example_db
        = Some asha
   \<and> post_login example_platform example_db \<lparr>userId = Undefined, adminId = Undefined\<rparr>
        (Str ''asha@example.com'') (Str ''wrong'') =
       (Render ''login'' (Some ''Galat email ya password.''),
        \<lparr>userId = Undefined, adminId = Undefined\<rparr>)"
  using affiliate_login_role_scoped
    [of example_db root_admin example_platform "\<lparr>userId = Undefined, adminId = Undefined\<rparr>"
      "Str ''secret''" "Str ''nobody@example.com''" "Str ''pw''" asha]
    affiliate_login_role_scoped
    [of example_db root_admin example_platform "\<lparr>userId = Undefined, adminId = Undefined\<rparr>"
      "Str ''secret''" "Str ''asha@example.com''" "Str ''wrong''" asha]
  by (simp add: example_db_def root_admin_def asha_def example_platform_def User_findOne_def)

text \<open>
  C9. Registration is not atomic. When the fields are filled in, the email is new and no
  account holds the placeholder code, the first write succeeds; when another account
  already holds the generated referral code, the save that follows fails, the handler
  renders \<open>Error aaya.\<close>, the session is left as it was, and the account written by the
  first step stays in the store with the referral code \<open>temp\<close>.
\<close>

theorem register_not_atomic:
  assumes "truthy n" and "truthy m" and "truthy p"
    and "\<not> (\<exists>v \<in> set (users d). email v = str_of m)"
    and "\<not> (\<exists>v \<in> set (users d). referralCode v = ''temp'')"
    and "\<exists>v \<in> set (users d). user_id v \<noteq> newId e
           \<and> referralCode v = generateReferralCode (str_of n) (newId e) (math_random e)"
  shows "post_register lib e d s n m p =
     (Render ''register'' (Some ''Error aaya.''),
      d\<lparr>users := users d @
        [\<lparr>user_id = newId e, user_name = str_of n, email = str_of m,
          passwordHash = bcrypt_hash lib (str_of p) (salt e),
          referralCode = ''temp'', role = Affiliate,
          user_createdAt = now e, user_updatedAt = now e\<rparr>]\<rparr>,
      s)"
proof -
  let ?user = "\<lparr>user_id = newId e, user_name = str_of n, email = str_of m,
          passwordHash = bcrypt_hash lib (str_of p) (salt e),
          referralCode = ''temp'', role = Affiliate,
          user_createdAt = now e, user_updatedAt = now e\<rparr>"
  let ?code = "generateReferralCode (str_of n) (newId e) (math_random e)"
  have look: "User_findOne (\<lambda>u. email u = str_of m) d = None"
    using assms(4) by (simp add: User_findOne_def find_None_iff_set)
  have created: "User_create d ?user = Inr (d\<lparr>users := users d @ [?user]\<rparr>)"
    using assms(4,5) by (simp add: User_create_def list_ex_iff)
  have saved: "User_save (d\<lparr>users := users d @ [?user]\<rparr>) (?user\<lparr>referralCode := ?code\<rparr>) (now e)
      = Inl (DuplicateKey ''referralCode'')"
    using assms(6) by (auto simp: User_save_def list_ex_iff)
  show ?thesis
    using assms(1,2,3) look created saved by (simp add: post_register_def Let_def)
qed

theorem register_not_atomic_witness:
  "post_register example_platform (example_env ''65b000000000000000001234'' 9) example_db
      \<lparr>userId = Undefined, adminId = Undefined\<rparr>
      (Str ''Asha Singh'') (Str ''singh@example.com'') (Str ''pw2'') =
     (Render ''register'' (Some ''Error aaya.''),
      \<lparr>users = [root_admin, asha,
         \<lparr>user_id = ''65b000000000000000001234'', user_name = ''Asha Singh'',
          email = ''singh@example.com'', passwordHash = ''saltpw2'',
          referralCode = ''temp'', role = Affiliate,
          user_createdAt = 9, user_updatedAt = 9\<rparr>],
       clicks = [], payouts = []\<rparr>,
      \<lparr>userId = Undefined, adminId = Undefined\<rparr>)"
proof -
  have code: "generateReferralCode ''Asha Singh'' ''65b000000000000000001234'' (1 / 2)
      = ''asha1234550''"
    by (simp add: code_defs)
  show ?thesis
    using register_not_atomic
      [of "Str ''Asha Singh''" "Str ''singh@example.com''" "Str ''pw2''" example_db
        "example_env ''65b000000000000000001234'' 9" example_platform
        "\<lparr>userId = Undefined, adminId = Undefined\<rparr>"]
    by (simp add: code example_defs)
qed

section \<open>Payout requests\<close>

text \<open>
  C6. For a session whose affiliate slot is set: an amount that is missing or empty,
  that \<open>Number\<close> does not read as a number, or whose number is at most zero, redirects to
  the dashboard and leaves the store as it was; a non-empty amount whose number is
  greater than zero appends exactly one payout request, for the affiliate of the session,
  with that amount and the status pending, and redirects to the dashboard.
\<close>

theorem payout_request_created_iff_positive:
  "truthy (userId s) \<longrightarrow>
     ((a = Undefined \<or> a = Null \<or> a = Str [] \<or> Number lib (str_of a) = NaN
        \<or> Number lib (str_of a) = NegInfinity \<or> (\<exists>x\<le>0. Number lib (str_of a) = Num x) \<longrightarrow>
       post_payout_request lib e d s a = (Redirect ''/dashboard'', d))
      \<and> ((\<exists>t. a = Str t \<and> t \<noteq> []
              \<and> (Number lib t = PosInfinity \<or> (\<exists>x>0. Number lib t = Num x))) \<longrightarrow>
       post_payout_request lib e d s a =
         (Redirect ''/dashboard'',
          d\<lparr>payouts := payouts d @
            [\<lparr>payout_id = newId e, payout_affiliate = str_of (userId s),
              amount = Number lib (str_of a), status = Pending,
              payout_createdAt = now e, processedAt = None\<rparr>]\<rparr>)))"
  by (auto simp: post_payout_request_def requireAffiliate_def PayoutRequest_create_def)

theorem payout_request_created_iff_positive_witness:
  "truthy (userId \<lparr>userId = Str ''65a000000000000000001234'', adminId = Undefined\<rparr>)
   \<and> Number example_platform ''-5'' = Num (- 5)
   \<and> post_payout_request example_platform (example_env ''65a000000000000000000003'' 3)
        example_db \<lparr>userId = Str ''65a000000000000000001234'', adminId = Undefined\<rparr>
        (Str ''-5'') = (Redirect ''/dashboard'', example_db)
   \<and> Number example_platform ''50'' = Num 50
   \<and> post_payout_request example_platform (example_env ''65a000000000000000000003'' 3)
        example_db \<lparr>userId = Str ''65a000000000000000001234'', adminId = Undefined\<rparr>
        (Str ''50'') =
       (Redirect ''/dashboard'',
        \<lparr>users = [root_admin, asha], clicks = [],
         payouts = [\<lparr>payout_id = ''65a000000000000000000003'',
           payout_affiliate = ''65a000000000000000001234'', amount = Num 50,
           status = Pending, payout_createdAt = 3, processedAt = None\<rparr>]\<rparr>)"
  using payout_request_created_iff_positive
    [of "\<lparr>userId = Str ''65a000000000000000001234'', adminId = Undefined\<rparr>" "Str ''-5''"
      example_platform "example_env ''65a000000000000000000003'' 3" example_db]
    payout_request_created_iff_positive
    [of "\<lparr>userId = Str ''65a000000000000000001234'', adminId = Undefined\<rparr>" "Str ''50''"
      example_platform "example_env ''65a000000000000000000003'' 3" example_db]
  by (simp add: example_platform_def example_env_def example_db_def)

section \<open>Referral clicks\<close>

text \<open>
  C2. \<open>GET /r/:code\<close>. When no affiliate-role account has the code as its referral code,
  the answer is 404 and the store is unchanged: no click is recorded. When some
  affiliate-role account has it, the answer names that account and exactly one click is
  appended, referring to that account and dated now; the number of clicks of the account
  grows by one, and so does its number of clicks since a midnight \<open>t0\<close> when the click is
  not before \<open>t0\<close>.
\<close>

theorem referral_click_recorded:
  "(\<not> (\<exists>u \<in> set (users d). referralCode u = code \<and> role u = Affiliate) \<longrightarrow>
      get_r e d code m = (Send 404 ''Invalid referral link'', d))
   \<and> ((\<exists>u \<in> set (users d). referralCode u = code \<and> role u = Affiliate) \<longrightarrow>
      (\<exists>u \<in> set (users d). \<exists>c.
         referralCode u = code \<and> role u = Affiliate
         \<and> get_r e d code m =
             (Send 200 (''You clicked referral of '' @ user_name u @ ''.''),
              d\<lparr>clicks := clicks d @ [c]\<rparr>)
         \<and> click_affiliate c = user_id u \<and> click_createdAt c = now e
         \<and> totalClicks (snd (get_r e d code m)) (user_id u) = Suc (totalClicks d (user_id u))
         \<and> todayClicks (snd (get_r e d code m)) (user_id u) t0 =
             (if t0 \<le> now e then Suc (todayClicks d (user_id u) t0)
              else todayClicks d (user_id u) t0)))"
proof (intro conjI impI)
  assume "\<not> (\<exists>u \<in> set (users d). referralCode u = code \<and> role u = Affiliate)"
  then have "User_findOne (\<lambda>u. referralCode u = code \<and> role u = Affiliate) d = None"
    by (simp add: User_findOne_def find_None_iff_set)
  then show "get_r e d code m = (Send 404 ''Invalid referral link'', d)"
    by (simp add: get_r_def)
next
  assume "\<exists>u \<in> set (users d). referralCode u = code \<and> role u = Affiliate"
  then have "User_findOne (\<lambda>u. referralCode u = code \<and> role u = Affiliate) d \<noteq> None"
    by (simp add: User_findOne_def find_None_iff_set)
  then obtain u where u: "User_findOne (\<lambda>u. referralCode u = code \<and> role u = Affiliate) d = Some u"
    by auto
  then have mem: "u \<in> set (users d)" "referralCode u = code" "role u = Affiliate"
    using find_Some_set [of "\<lambda>u. referralCode u = code \<and> role u = Affiliate" "users d" u]
    by (simp_all add: User_findOne_def)
  let ?c = "\<lparr>click_id = newId e, click_affiliate = user_id u,
              ip = js_or (x_forwarded_for m) (remoteAddress m),
              userAgent = user_agent m, click_createdAt = now e\<rparr>"
  have r: "get_r e d code m =
      (Send 200 (''You clicked referral of '' @ user_name u @ ''.''), d\<lparr>clicks := clicks d @ [?c]\<rparr>)"
    using u by (simp add: get_r_def Click_create_def)
  have tot: "totalClicks (snd (get_r e d code m)) (user_id u) = Suc (totalClicks d (user_id u))"
    by (simp add: r totalClicks_def Click_countDocuments_def)
  have tod: "todayClicks (snd (get_r e d code m)) (user_id u) t0 =
             (if t0 \<le> now e then Suc (todayClicks d (user_id u) t0)
              else todayClicks d (user_id u) t0)"
    by (simp add: r todayClicks_def Click_countDocuments_def)
  have "referralCode u = code \<and> role u = Affiliate
         \<and> get_r e d code m =
             (Send 200 (''You clicked referral of '' @ user_name u @ ''.''),
              d\<lparr>clicks := clicks d @ [?c]\<rparr>)
         \<and> click_affiliate ?c = user_id u \<and> click_createdAt ?c = now e
         \<and> totalClicks (snd (get_r e d code m)) (user_id u) = Suc (totalClicks d (user_id u))
         \<and> todayClicks (snd (get_r e d code m)) (user_id u) t0 =
             (if t0 \<le> now e then Suc (todayClicks d (user_id u) t0)
              else todayClicks d (user_id u) t0)"
    using mem r tot tod by simp
  then show "\<exists>u \<in> set (users d). \<exists>c.
         referralCode u = code \<and> role u = Affiliate
         \<and> get_r e d code m =
             (Send 200 (''You clicked referral of '' @ user_name u @ ''.''),
              d\<lparr>clicks := clicks d @ [c]\<rparr>)
         \<and> click_affiliate c = user_id u \<and> click_createdAt c = now e
         \<and> totalClicks (snd (get_r e d code m)) (user_id u) = Suc (totalClicks d (user_id u))
         \<and> todayClicks (snd (get_r e d code m)) (user_id u) t0 =
             (if t0 \<le> now e then Suc (todayClicks d (user_id u) t0)
              else todayClicks d (user_id u) t0)"
    using mem(1) by blast
qed

theorem referral_click_recorded_witness:
  "get_r (example_env ''65a00000000000000000000a'' 10) example_db ''admin''
      \<lparr>x_forwarded_for = Undefined, remoteAddress = Str ''10.0.0.7'', user_agent = Str ''curl''\<rparr>
     = (Send 404 ''Invalid referral link'', example_db)
   \<and> get_r (example_env ''65a00000000000000000000a'' 10) example_db ''asha1234550''
      \<lparr>x_forwarded_for = Undefined, remoteAddress = Str ''10.0.0.7'', user_agent = Str ''curl''\<rparr>
     = (Send 200 ''You clicked referral of Asha Rao.'',
        \<lparr>users = [root_admin, asha],
         clicks = [\<lparr>click_id = ''65a00000000000000000000a'',
           click_affiliate = ''65a000000000000000001234'', ip = Str ''10.0.0.7'',
           userAgent = Str ''curl'', click_createdAt = 10\<rparr>],
         payouts = []\<rparr>)
   \<and> totalClicks example_db ''65a000000000000000001234'' = 0
   \<and> totalClicks (snd (get_r (example_env ''65a00000000000000000000a'' 10) example_db
        ''asha1234550''
        \<lparr>x_forwarded_for = Undefined, remoteAddress = Str ''10.0.0.7'', user_agent = Str ''curl''\<rparr>))
        ''65a000000000000000001234'' = 1"
  using referral_click_recorded
    [of example_db "''admin''" "example_env ''65a00000000000000000000a'' 10"
      "\<lparr>x_forwarded_for = Undefined, remoteAddress = Str ''10.0.0.7'', user_agent = Str ''curl''\<rparr>"
      0]
    referral_click_recorded
    [of example_db "''asha1234550''" "example_env ''65a00000000000000000000a'' 10"
      "\<lparr>x_forwarded_for = Undefined, remoteAddress = Str ''10.0.0.7'', user_agent = Str ''curl''\<rparr>"
      0]
  by (simp add: example_defs handler_defs totalClicks_def)

section \<open>Admin bootstrap\<close>

lemma find_append_new: "find q xs = None \<Longrightarrow> q a \<Longrightarrow> find q (xs @ [a]) = Some a"
  by (induction xs) (auto split: if_splits)

lemma ensureAdminUser_twice:
  "snd (ensureAdminUser lib cfg e' (snd (ensureAdminUser lib cfg e d)))
     = snd (ensureAdminUser lib cfg e d)"
proof (cases "\<not> truthy (ADMIN_EMAIL cfg) \<or> \<not> truthy (ADMIN_PASSWORD cfg)")
  case True
  then show ?thesis
    by (auto simp: ensureAdminUser_def)
next
  case filled: False
  let ?q = "\<lambda>u. email u = str_of (ADMIN_EMAIL cfg) \<and> role u = Admin"
  let ?a = "\<lambda>e. \<lparr>user_id = newId e, user_name = ''Super Admin'',
                 email = str_of (ADMIN_EMAIL cfg),
                 passwordHash = bcrypt_hash lib (str_of (ADMIN_PASSWORD cfg)) (salt e),
                 referralCode = ''admin'', role = Admin,
                 user_createdAt = now e, user_updatedAt = now e\<rparr>"
  show ?thesis
  proof (cases "User_findOne ?q d")
    case (Some a)
    with filled show ?thesis
      by (simp add: ensureAdminUser_def)
  next
    case None
    show ?thesis
    proof (cases "list_ex (\<lambda>v. email v = str_of (ADMIN_EMAIL cfg)) (users d)
        \<or> list_ex (\<lambda>v. referralCode v = ''admin'') (users d)")
      case True
      then have "\<And>e. snd (ensureAdminUser lib cfg e d) = d"
        using filled None by (auto simp: ensureAdminUser_def User_create_def)
      then show ?thesis
        by simp
    next
      case False
      then have "User_create d (?a e) = Inr (d\<lparr>users := users d @ [?a e]\<rparr>)"
        by (simp add: User_create_def)
      then have first: "snd (ensureAdminUser lib cfg e d) = d\<lparr>users := users d @ [?a e]\<rparr>"
        using filled None by (simp add: ensureAdminUser_def)
      have "User_findOne ?q (d\<lparr>users := users d @ [?a e]\<rparr>) = Some (?a e)"
        using None by (simp add: User_findOne_def find_append_new)
      then have "snd (ensureAdminUser lib cfg e' (d\<lparr>users := users d @ [?a e]\<rparr>))
          = d\<lparr>users := users d @ [?a e]\<rparr>"
        using filled by (simp add: ensureAdminUser_def)
      with first show ?thesis
        by simp
    qed
  qed
qed

text \<open>
  C7, as the code has it. Without both configuration values the bootstrap logs a
  diagnostic and changes nothing. When an admin-role account with the configured email
  exists it changes nothing. Otherwise it inserts one account with role admin and
  referral code \<open>admin\<close>, provided no account holds that email or that referral code; when
  one does, the unique index refuses the insert, the error is logged and the store is
  unchanged. In every case a second bootstrap with the same configuration leaves the store
  as the first one left it.
\<close>

theorem bootstrap_admin_idempotent:
  "(\<not> truthy (ADMIN_EMAIL cfg) \<or> \<not> truthy (ADMIN_PASSWORD cfg) \<longrightarrow>
      ensureAdminUser lib cfg e d =
        (Console_log ''Set ADMIN_EMAIL and ADMIN_PASSWORD in env.'', d))
   \<and> (truthy (ADMIN_EMAIL cfg) \<and> truthy (ADMIN_PASSWORD cfg)
        \<and> (\<exists>u \<in> set (users d). email u = str_of (ADMIN_EMAIL cfg) \<and> role u = Admin) \<longrightarrow>
      ensureAdminUser lib cfg e d =
        (Console_log (''Admin already exists: '' @ str_of (ADMIN_EMAIL cfg)), d))
   \<and> (truthy (ADMIN_EMAIL cfg) \<and> truthy (ADMIN_PASSWORD cfg)
        \<and> \<not> (\<exists>u \<in> set (users d).
               email u = str_of (ADMIN_EMAIL cfg) \<or> referralCode u = ''admin'') \<longrightarrow>
      ensureAdminUser lib cfg e d =
        (Console_log (''Admin created: '' @ str_of (ADMIN_EMAIL cfg)),
         d\<lparr>users := users d @
           [\<lparr>user_id = newId e, user_name = ''Super Admin'',
             email = str_of (ADMIN_EMAIL cfg),
             passwordHash = bcrypt_hash lib (str_of (ADMIN_PASSWORD cfg)) (salt e),
             referralCode = ''admin'', role = Admin,
             user_createdAt = now e, user_updatedAt = now e\<rparr>]\<rparr>))
   \<and> (truthy (ADMIN_EMAIL cfg) \<and> truthy (ADMIN_PASSWORD cfg)
        \<and> \<not> (\<exists>u \<in> set (users d). email u = str_of (ADMIN_EMAIL cfg) \<and> role u = Admin)
        \<and> (\<exists>u \<in> set (users d).
               email u = str_of (ADMIN_EMAIL cfg) \<or> referralCode u = ''admin'') \<longrightarrow>
      (\<exists>err. ensureAdminUser lib cfg e d = (Console_error ''MongoDB error:'' err, d)))
   \<and> snd (ensureAdminUser lib cfg e' (snd (ensureAdminUser lib cfg e d)))
        = snd (ensureAdminUser lib cfg e d)"
proof (intro conjI impI)
  assume "\<not> truthy (ADMIN_EMAIL cfg) \<or> \<not> truthy (ADMIN_PASSWORD cfg)"
  then show "ensureAdminUser lib cfg e d =
        (Console_log ''Set ADMIN_EMAIL and ADMIN_PASSWORD in env.'', d)"
    by (auto simp: ensureAdminUser_def)
next
  assume a: "truthy (ADMIN_EMAIL cfg) \<and> truthy (ADMIN_PASSWORD cfg)
        \<and> (\<exists>u \<in> set (users d). email u = str_of (ADMIN_EMAIL cfg) \<and> role u = Admin)"
  then have "User_findOne (\<lambda>u. email u = str_of (ADMIN_EMAIL cfg) \<and> role u = Admin) d \<noteq> None"
    by (simp add: User_findOne_def find_None_iff_set)
  then obtain x where
    "User_findOne (\<lambda>u. email u = str_of (ADMIN_EMAIL cfg) \<and> role u = Admin) d = Some x"
    by auto
  with a show "ensureAdminUser lib cfg e d =
        (Console_log (''Admin already exists: '' @ str_of (ADMIN_EMAIL cfg)), d)"
    by (simp add: ensureAdminUser_def)
next
  assume a: "truthy (ADMIN_EMAIL cfg) \<and> truthy (ADMIN_PASSWORD cfg)
        \<and> \<not> (\<exists>u \<in> set (users d).
               email u = str_of (ADMIN_EMAIL cfg) \<or> referralCode u = ''admin'')"
  then have "User_findOne (\<lambda>u. email u = str_of (ADMIN_EMAIL cfg) \<and> role u = Admin) d = None"
    by (auto simp: User_findOne_def find_None_iff_set)
  with a show "ensureAdminUser lib cfg e d =
        (Console_log (''Admin created: '' @ str_of (ADMIN_EMAIL cfg)),
         d\<lparr>users := users d @
           [\<lparr>user_id = newId e, user_name = ''Super Admin'',
             email = str_of (ADMIN_EMAIL cfg),
             passwordHash = bcrypt_hash lib (str_of (ADMIN_PASSWORD cfg)) (salt e),
             referralCode = ''admin'', role = Admin,
             user_createdAt = now e, user_updatedAt = now e\<rparr>]\<rparr>)"
    by (auto simp: ensureAdminUser_def User_create_def list_ex_iff)
next
  assume a: "truthy (ADMIN_EMAIL cfg) \<and> truthy (ADMIN_PASSWORD cfg)
        \<and> \<not> (\<exists>u \<in> set (users d). email u = str_of (ADMIN_EMAIL cfg) \<and> role u = Admin)
        \<and> (\<exists>u \<in> set (users d).
               email u = str_of (ADMIN_EMAIL cfg) \<or> referralCode u = ''admin'')"
  then have none: "User_findOne (\<lambda>u. email u = str_of (ADMIN_EMAIL cfg) \<and> role u = Admin) d = None"
    by (simp add: User_findOne_def find_None_iff_set)
  from a have "list_ex (\<lambda>v. email v = str_of (ADMIN_EMAIL cfg)) (users d)
      \<or> list_ex (\<lambda>v. referralCode v = ''admin'') (users d)"
    by (auto simp: list_ex_iff)
  then have "\<exists>err. User_create d
                \<lparr>user_id = newId e, user_name = ''Super Admin'',
                 email = str_of (ADMIN_EMAIL cfg),
                 passwordHash = bcrypt_hash lib (str_of (ADMIN_PASSWORD cfg)) (salt e),
                 referralCode = ''admin'', role = Admin,
                 user_createdAt = now e, user_updatedAt = now e\<rparr> = Inl err"
    by (auto simp: User_create_def)
  with a none show "\<exists>err. ensureAdminUser lib cfg e d = (Console_error ''MongoDB error:'' err, d)"
    by (auto simp: ensureAdminUser_def)
next
  show "snd (ensureAdminUser lib cfg e' (snd (ensureAdminUser lib cfg e d)))
        = snd (ensureAdminUser lib cfg e d)"
    by (rule ensureAdminUser_twice)
qed

theorem bootstrap_admin_idempotent_witness:
  "ensureAdminUser example_platform
      \<lparr>ADMIN_EMAIL = Undefined, ADMIN_PASSWORD = Str ''secret'', BASE_URL = Undefined\<rparr>
      (example_env ''65a000000000000000000001'' 1) empty_db =
     (Console_log ''Set ADMIN_EMAIL and ADMIN_PASSWORD in env.'', empty_db)
   \<and> ensureAdminUser example_platform example_config
        (example_env ''65a000000000000000000001'' 1) empty_db =
       (Console_log ''Admin created: root@example.com'',
        \<lparr>users = [root_admin], clicks = [], payouts = []\<rparr>)
   \<and> ensureAdminUser example_platform example_config
        (example_env ''65a00000000000000000000c'' 12) example_db =
       (Console_log ''Admin already exists: root@example.com'', example_db)
   \<and> ensureAdminUser example_platform
        \<lparr>ADMIN_EMAIL = Str ''boss@example.com'', ADMIN_PASSWORD = Str ''secret'',
         BASE_URL = Undefined\<rparr>
        (example_env ''65a00000000000000000000c'' 12) example_db =
       (Console_error ''MongoDB error:'' (DuplicateKey ''referralCode''), example_db)
   \<and> snd (ensureAdminUser example_platform example_config
        (example_env ''65a00000000000000000000c'' 12)
        (snd (ensureAdminUser example_platform example_config
           (example_env ''65a000000000000000000001'' 1) empty_db))) =
       \<lparr>users = [root_admin], clicks = [], payouts = []\<rparr>"
  using bootstrap_admin_idempotent
    [of "\<lparr>ADMIN_EMAIL = Undefined, ADMIN_PASSWORD = Str ''secret'', BASE_URL = Undefined\<rparr>"
      example_platform "example_env ''65a000000000000000000001'' 1" empty_db
      "example_env ''65a00000000000000000000c'' 12"]
    bootstrap_admin_idempotent
    [of example_config example_platform "example_env ''65a000000000000000000001'' 1" empty_db
      "example_env ''65a00000000000000000000c'' 12"]
    bootstrap_admin_idempotent
    [of example_config example_platform "example_env ''65a00000000000000000000c'' 12"
      example_db "example_env ''65a00000000000000000000c'' 12"]
    bootstrap_admin_idempotent
    [of "\<lparr>ADMIN_EMAIL = Str ''boss@example.com'', ADMIN_PASSWORD = Str ''secret'',
         BASE_URL = Undefined\<rparr>"
      example_platform "example_env ''65a00000000000000000000c'' 12"
      example_db "example_env ''65a00000000000000000000c'' 12"]
  by (simp add: example_defs ensureAdminUser_def User_findOne_def User_create_def)

text \<open>
  C7, as the claim states it, fails where the unique indexes refuse the insert. In the
  store reached by the start of the process and the registration of Asha Rao
  (\<open>example_run_store\<close>), a bootstrap configured with Asha's email finds no admin of that
  email, and a bootstrap configured with a new admin email finds no admin of that email
  either; both inserts are refused, and no admin account is created.
\<close>

theorem bootstrap_admin_refused_by_unique_index:
  "User_findOne (\<lambda>u. email u = ''asha@example.com'' \<and> role u = Admin) example_db = None
   \<and> ensureAdminUser example_platform
        \<lparr>ADMIN_EMAIL = Str ''asha@example.com'', ADMIN_PASSWORD = Str ''secret'',
         BASE_URL = Undefined\<rparr>
        (example_env ''65a00000000000000000000c'' 12) example_db =
       (Console_error ''MongoDB error:'' (DuplicateKey ''email''), example_db)
   \<and> User_findOne (\<lambda>u. email u = ''boss@example.com'' \<and> role u = Admin) example_db = None
   \<and> ensureAdminUser example_platform
        \<lparr>ADMIN_EMAIL = Str ''boss@example.com'', ADMIN_PASSWORD = Str ''secret'',
         BASE_URL = Undefined\<rparr>
        (example_env ''65a00000000000000000000c'' 12) example_db =
       (Console_error ''MongoDB error:'' (DuplicateKey ''referralCode''), example_db)"
  by (simp add: example_defs ensureAdminUser_def User_findOne_def User_create_def)

section \<open>Referral codes\<close>

lemma random_suffix_range:
  assumes "0 \<le> r" and "r < 1"
  shows "100 \<le> nat \<lfloor>100 + r * 900\<rfloor> \<and> nat \<lfloor>100 + r * 900\<rfloor> \<le> 999"
proof -
  have lo: "100 \<le> \<lfloor>100 + r * 900\<rfloor>"
    using assms(1) by (simp add: le_floor_iff)
  have hi: "\<lfloor>100 + r * 900\<rfloor> < 1000"
    using assms(2) by (simp add: floor_less_iff)
  from lo hi show ?thesis
    by linarith
qed

lemma digit_char_digit: "k < 10 \<Longrightarrow> digit_char k \<in> set ''0123456789''"
  unfolding digit_char_def by (rule nth_mem) simp

lemma string_of_nat_digits: "set (string_of_nat n) \<subseteq> set ''0123456789''"
proof (induction n rule: string_of_nat.induct)
  case (1 n)
  show ?case
  proof (cases "n < 10")
    case True
    then show ?thesis
      using digit_char_digit [of n] by (simp add: string_of_nat.simps [of n])
  next
    case False
    have "n mod 10 < 10"
      by simp
    then have "digit_char (n mod 10) \<in> set ''0123456789''"
      by (rule digit_char_digit)
    with False 1 show ?thesis
      by (simp add: string_of_nat.simps [of n])
  qed
qed

lemma string_of_nat_three_digits:
  assumes "100 \<le> n" and "n \<le> 999"
  shows "length (string_of_nat n) = 3"
proof -
  have a: "\<not> n < 10" "\<not> n div 10 < 10" "n div 10 div 10 < 10"
    using assms by simp_all
  show ?thesis
    using a
    by (simp add: string_of_nat.simps [of n] string_of_nat.simps [of "n div 10"]
        string_of_nat.simps [of "n div 10 div 10"])
qed

text \<open>
  C4, as the code has it. For every name, every id and every value \<open>r\<close> of
  \<open>Math.random()\<close> (\<open>0 \<le> r < 1\<close>), the code is made of three parts. The first is the lower
  case of the name, or of the word \<open>user\<close> when the name is empty, cut before its first
  space character: the part kept holds no space and what follows it is empty or starts
  with a space. The second is the last four characters of the id, or the whole id when it
  is shorter. The third is the decimal numeral of an integer between 100 and 999: three
  digits.
\<close>

theorem generateReferralCode_shape:
  assumes "0 \<le> r" and "r < 1"
  shows "\<exists>tok rest pre suf k.
      (if nm = [] then ''user'' else nm) = tok @ rest
      \<and> CHR '' '' \<notin> set tok \<and> (rest = [] \<or> hd rest = CHR '' '')
      \<and> i = pre @ suf \<and> (length suf = 4 \<or> (pre = [] \<and> length suf < 4))
      \<and> 100 \<le> k \<and> k \<le> 999
      \<and> length (string_of_nat k) = 3 \<and> set (string_of_nat k) \<subseteq> set ''0123456789''
      \<and> generateReferralCode nm i r = toLowerCase tok @ suf @ string_of_nat k"
proof -
  let ?s = "if nm = [] then ''user'' else nm"
  let ?tok = "takeWhile (\<lambda>c. c \<noteq> CHR '' '') ?s"
  let ?rest = "dropWhile (\<lambda>c. c \<noteq> CHR '' '') ?s"
  let ?pre = "take (length i - 4) i"
  let ?suf = "drop (length i - 4) i"
  let ?k = "nat \<lfloor>100 + r * 900\<rfloor>"
  have split: "?s = ?tok @ ?rest"
    by simp
  have tok: "CHR '' '' \<notin> set ?tok"
    using set_takeWhileD [of "CHR '' ''" "\<lambda>c. c \<noteq> CHR '' ''" ?s] by blast
  have rest: "?rest = [] \<or> hd ?rest = CHR '' ''"
    using hd_dropWhile [of "\<lambda>c. c \<noteq> CHR '' ''" ?s] by blast
  have id_split: "i = ?pre @ ?suf"
    by simp
  have suf: "length ?suf = 4 \<or> (?pre = [] \<and> length ?suf < 4)"
    by (cases "4 \<le> length i") auto
  have k: "100 \<le> ?k \<and> ?k \<le> 999"
    using assms by (rule random_suffix_range)
  then have len: "length (string_of_nat ?k) = 3"
    by (simp add: string_of_nat_three_digits)
  have code: "generateReferralCode nm i r = toLowerCase ?tok @ ?suf @ string_of_nat ?k"
    by (simp add: generateReferralCode_def split_space_first_def slice_last4_def)
  from split tok rest id_split suf k len string_of_nat_digits [of ?k] code show ?thesis
    by blast
qed

theorem generateReferralCode_shape_witness:
  "(0::real) \<le> 1 / 2 \<and> (1 / 2 :: real) < 1
   \<and> generateReferralCode ''Asha Rao'' ''65a000000000000000001234'' (1 / 2) = ''asha1234550''
   \<and> (\<exists>tok rest pre suf k.
      ''Asha Rao'' = tok @ rest
      \<and> CHR '' '' \<notin> set tok \<and> (rest = [] \<or> hd rest = CHR '' '')
      \<and> ''65a000000000000000001234'' = pre @ suf \<and> (length suf = 4 \<or> (pre = [] \<and> length suf < 4))
      \<and> 100 \<le> k \<and> k \<le> 999
      \<and> length (string_of_nat k) = 3 \<and> set (string_of_nat k) \<subseteq> set ''0123456789''
      \<and> ''asha1234550'' = toLowerCase tok @ suf @ string_of_nat k)"
proof -
  have code: "generateReferralCode ''Asha Rao'' ''65a000000000000000001234'' (1 / 2)
      = ''asha1234550''"
    by (simp add: code_defs)
  show ?thesis
    using generateReferralCode_shape [of "1 / 2" "''Asha Rao''" "''65a000000000000000001234''"]
    by (simp add: code)
qed

text \<open>
  C4, as the claim states it, takes the first whitespace-delimited token of the name.
  The code splits at the space character only: for the name \<open>Asha<TAB>Rao\<close> the token is
  \<open>Asha\<close>, and the code is not the lower-case token followed by the last four characters
  of the id and a suffix: it keeps the tab and what follows it. For a name that starts
  with a space the code has an empty first part, where the token is the first word.
\<close>

theorem generateReferralCode_splits_at_space_only:
  "spec_first_token (''Asha'' @ [CHR 0x09] @ ''Rao'') = ''Asha''
   \<and> generateReferralCode (''Asha'' @ [CHR 0x09] @ ''Rao'') ''65a000000000000000001234'' (1 / 2)
       = ''asha'' @ [CHR 0x09] @ ''rao1234550''
   \<and> \<not> (\<exists>suffix.
        generateReferralCode (''Asha'' @ [CHR 0x09] @ ''Rao'') ''65a000000000000000001234'' (1 / 2)
          = toLowerCase (spec_first_token (''Asha'' @ [CHR 0x09] @ ''Rao''))
              @ slice_last4 ''65a000000000000000001234'' @ suffix)
   \<and> spec_first_token '' Asha Rao'' = ''Asha''
   \<and> generateReferralCode '' Asha Rao'' ''65a000000000000000001234'' (1 / 2) = ''1234550''"
  by (simp add: code_defs spec_first_token_def is_whitespace_def)

section \<open>Payout adjudication\<close>

lemma find_update_first:
  "(\<And>x. payout_id (f x) = payout_id x) \<Longrightarrow>
   find (\<lambda>p. payout_id p = j) (update_first (\<lambda>p. payout_id p = i) f xs) =
     (if i = j then map_option f (find (\<lambda>p. payout_id p = j) xs)
      else find (\<lambda>p. payout_id p = j) xs)"
  by (induction xs) auto

lemma find_append_Some: "find q xs = Some x \<Longrightarrow> find q (xs @ ys) = Some x"
  by (induction xs) (auto split: if_splits)

lemma settled_create: "settled d i \<Longrightarrow> settled (PayoutRequest_create d p) i"
  by (auto simp: settled_def PayoutRequest_create_def PayoutRequest_findById_def
      find_append_Some split: option.splits)

lemma settled_update:
  "st \<noteq> Pending \<Longrightarrow> settled d i \<Longrightarrow> settled (PayoutRequest_findByIdAndUpdate d j st t) i"
  by (auto simp: settled_def PayoutRequest_findByIdAndUpdate_def PayoutRequest_findById_def
      find_update_first split: option.splits)

lemma settled_cong: "payouts d' = payouts d \<Longrightarrow> settled d' i = settled d i"
  by (simp add: settled_def PayoutRequest_findById_def)

lemma payouts_User_create: "User_create d u = Inr d' \<Longrightarrow> payouts d' = payouts d"
  by (auto simp: User_create_def split: if_splits)

lemma payouts_User_save: "User_save d u t = Inr d' \<Longrightarrow> payouts d' = payouts d"
  by (auto simp: User_save_def split: if_splits)

lemma payouts_post_register:
  "payouts (fst (snd (post_register lib e d s n m p))) = payouts d"
  unfolding post_register_def Let_def
  by (auto split: option.split sum.split dest!: payouts_User_create payouts_User_save)

lemma payouts_ensureAdminUser: "payouts (snd (ensureAdminUser lib cfg e d)) = payouts d"
  unfolding ensureAdminUser_def
  by (auto split: option.split sum.split dest!: payouts_User_create)

lemma payouts_get_r: "payouts (snd (get_r e d code m)) = payouts d"
  by (simp add: get_r_def Click_create_def split: option.split)

lemma settled_post_payout_request:
  "settled d i \<Longrightarrow> settled (snd (post_payout_request lib e d s a)) i"
  by (simp add: post_payout_request_def settled_create split: option.split)

lemma settled_post_approve: "settled d i \<Longrightarrow> settled (snd (post_approve e d s j)) i"
  by (simp add: post_approve_def settled_update split: option.split)

lemma settled_post_reject: "settled d i \<Longrightarrow> settled (snd (post_reject e d s j)) i"
  by (simp add: post_reject_def settled_update split: option.split)

lemma settled_handle: "settled d i \<Longrightarrow> settled (fst (snd (handle lib cfg e rq d s))) i"
  by (cases rq)
    (simp_all add: split_beta settled_cong [OF payouts_post_register]
      settled_cong [OF payouts_get_r] settled_post_payout_request settled_post_approve
      settled_post_reject)

lemma settled_step: "settled (store sys) i \<Longrightarrow> settled (store (step lib ev sys)) i"
  by (cases ev)
    (simp_all add: step_def split_beta settled_handle settled_cong [OF payouts_ensureAdminUser])

lemma settled_run: "settled (store sys) i \<Longrightarrow> settled (store (run lib evs sys)) i"
  unfolding run_def by (induction evs arbitrary: sys) (simp_all add: settled_step)

lemma adjudicated:
  "PayoutRequest_findById d i = Some p \<Longrightarrow>
   PayoutRequest_findById (PayoutRequest_findByIdAndUpdate d i st t) i
     = Some (p\<lparr>status := st, processedAt := Some t\<rparr>)"
  by (simp add: PayoutRequest_findById_def PayoutRequest_findByIdAndUpdate_def find_update_first)

text \<open>
  C1, as the code has it. Along every run of the system (starts of the process and
  requests on any sessions, in any order and with any inputs), a payout request that is
  no longer pending never becomes pending again. Approved and rejected are not terminal:
  for an admin session, each adjudication route sets the status of the request it names
  to its own decision, and \<open>processedAt\<close> to the time of the request, whatever the status
  was before.
\<close>

theorem payout_never_back_to_pending:
  "(settled (store sys) i \<longrightarrow> settled (store (run lib evs sys)) i)
   \<and> (truthy (adminId s) \<and> PayoutRequest_findById d j = Some p \<longrightarrow>
        PayoutRequest_findById (snd (post_approve e d s j)) j
          = Some (p\<lparr>status := Approved, processedAt := Some (now e)\<rparr>)
        \<and> PayoutRequest_findById (snd (post_reject e d s j)) j
          = Some (p\<lparr>status := Rejected, processedAt := Some (now e)\<rparr>))"
  by (simp add: settled_run post_approve_def post_reject_def requireAdmin_def adjudicated)

theorem payout_never_back_to_pending_witness:
  "settled (store (run example_platform example_events initial_system))
      ''65a000000000000000000003''
   \<and> settled (store (run example_platform [example_reject]
        (run example_platform example_events initial_system))) ''65a000000000000000000003''
   \<and> truthy (adminId \<lparr>userId = Undefined, adminId = Str ''65a000000000000000000001''\<rparr>)
   \<and> PayoutRequest_findById
        \<lparr>users = [], clicks = [],
         payouts = [\<lparr>payout_id = ''65a000000000000000000003'',
           payout_affiliate = ''65a000000000000000001234'', amount = Num 50,
           status = Rejected, payout_createdAt = 3, processedAt = Some 6\<rparr>]\<rparr>
        ''65a000000000000000000003''
       = Some \<lparr>payout_id = ''65a000000000000000000003'',
           payout_affiliate = ''65a000000000000000001234'', amount = Num 50,
           status = Rejected, payout_createdAt = 3, processedAt = Some 6\<rparr>
   \<and> PayoutRequest_findById
        (snd (post_approve (example_env ''65a000000000000000000007'' 7)
          \<lparr>users = [], clicks = [],
           payouts = [\<lparr>payout_id = ''65a000000000000000000003'',
             payout_affiliate = ''65a000000000000000001234'', amount = Num 50,
             status = Rejected, payout_createdAt = 3, processedAt = Some 6\<rparr>]\<rparr>
          \<lparr>userId = Undefined, adminId = Str ''65a000000000000000000001''\<rparr>
          ''65a000000000000000000003''))
        ''65a000000000000000000003''
       = Some \<lparr>payout_id = ''65a000000000000000000003'',
           payout_affiliate = ''65a000000000000000001234'', amount = Num 50,
           status = Approved, payout_createdAt = 3, processedAt = Some 7\<rparr>"
proof -
  have reached: "settled (store (run example_platform example_events initial_system))
      ''65a000000000000000000003''"
    by (simp add: settled_def example_defs handler_defs code_defs)
  show ?thesis
    using reached
      payout_never_back_to_pending
      [where sys = "run example_platform example_events initial_system"
        and i = "''65a000000000000000000003''" and lib = example_platform
        and evs = "[example_reject]"
        and s = "\<lparr>userId = Undefined, adminId = Str ''65a000000000000000000001''\<rparr>"
        and d = "\<lparr>users = [], clicks = [],
           payouts = [\<lparr>payout_id = ''65a000000000000000000003'',
             payout_affiliate = ''65a000000000000000001234'', amount = Num 50,
             status = Rejected, payout_createdAt = 3, processedAt = Some 6\<rparr>]\<rparr>"
        and j = "''65a000000000000000000003''"
        and e = "example_env ''65a000000000000000000007'' 7"]
    by (simp add: PayoutRequest_findById_def example_env_def)
qed

text \<open>
  C1, as the claim states it, fails: approved is not terminal. From the empty store, the
  process starts, Asha Rao registers and asks for a payout, and the administrator logs in;
  the request is pending. The administrator approves it, and it is approved; the
  administrator then rejects the same request, and it is rejected.
\<close>

theorem payout_approved_then_rejected:
  "map_option status (PayoutRequest_findById
      (store (run example_platform (take 4 example_events) initial_system))
      ''65a000000000000000000003'') = Some Pending
   \<and> map_option status (PayoutRequest_findById
      (store (run example_platform example_events initial_system))
      ''65a000000000000000000003'') = Some Approved
   \<and> map_option status (PayoutRequest_findById
      (store (run example_platform (example_events @ [example_reject]) initial_system))
      ''65a000000000000000000003'') = Some Rejected"
  by (simp add: example_defs handler_defs code_defs)

section \<open>The unique index on emails along a run\<close>

text \<open>
  The emails of the accounts are distinct in the empty store and stay distinct along
  every run: an insert that repeats an email is refused, and a save does not touch the
  email. This is the assumption under which the affiliate login was stated.
\<close>

lemma distinct_User_create:
  assumes "distinct (map email (users d))" and "User_create d u = Inr d'"
  shows "distinct (map email (users d'))"
proof -
  from assms(2) have new: "\<not> list_ex (\<lambda>v. email v = email u) (users d)"
    and d': "d' = d\<lparr>users := users d @ [u]\<rparr>"
    by (simp_all add: User_create_def split: if_splits)
  from new have "email u \<notin> set (map email (users d))"
    by (auto simp: list_ex_iff)
  with assms(1) d' show ?thesis
    by simp
qed

lemma emails_update_first:
  "(\<And>x. email (f x) = email x) \<Longrightarrow> map email (update_first q f xs) = map email xs"
  by (induction xs) auto

lemma emails_User_save: "User_save d u t = Inr d' \<Longrightarrow> map email (users d') = map email (users d)"
  by (auto simp: User_save_def emails_update_first split: if_splits)

lemma post_register_store:
  "fst (snd (post_register lib e d s n m p)) = d
   \<or> (\<exists>u d1. User_create d u = Inr d1
        \<and> (fst (snd (post_register lib e d s n m p)) = d1
           \<or> (\<exists>u' t. User_save d1 u' t = Inr (fst (snd (post_register lib e d s n m p))))))"
  unfolding post_register_def Let_def
  by (simp split: option.split sum.split) blast

lemma distinct_post_register:
  assumes "distinct (map email (users d))"
  shows "distinct (map email (users (fst (snd (post_register lib e d s n m p)))))"
proof -
  let ?d' = "fst (snd (post_register lib e d s n m p))"
  from post_register_store [of lib e d s n m p] consider
    (same) "?d' = d"
    | (created) u where "User_create d u = Inr ?d'"
    | (saved) u d1 u' t where "User_create d u = Inr d1" "User_save d1 u' t = Inr ?d'"
    by blast
  then show ?thesis
  proof cases
    case same
    with assms show ?thesis by simp
  next
    case created
    with assms show ?thesis by (rule distinct_User_create)
  next
    case saved
    from assms saved(1) have "distinct (map email (users d1))"
      by (rule distinct_User_create)
    with emails_User_save [OF saved(2)] show ?thesis by simp
  qed
qed

lemma ensureAdminUser_store:
  "snd (ensureAdminUser lib cfg e d) = d
   \<or> (\<exists>u. User_create d u = Inr (snd (ensureAdminUser lib cfg e d)))"
  unfolding ensureAdminUser_def
  by (simp split: option.split sum.split) blast

lemma distinct_ensureAdminUser:
  assumes "distinct (map email (users d))"
  shows "distinct (map email (users (snd (ensureAdminUser lib cfg e d))))"
  using ensureAdminUser_store [of lib cfg e d] assms
  by (auto dest: distinct_User_create)

lemma users_post_payout_request: "users (snd (post_payout_request lib e d s a)) = users d"
  by (simp add: post_payout_request_def PayoutRequest_create_def split: option.split)

lemma users_get_r: "users (snd (get_r e d code m)) = users d"
  by (simp add: get_r_def Click_create_def split: option.split)

lemma users_post_approve: "users (snd (post_approve e d s j)) = users d"
  by (simp add: post_approve_def PayoutRequest_findByIdAndUpdate_def split: option.split)

lemma users_post_reject: "users (snd (post_reject e d s j)) = users d"
  by (simp add: post_reject_def PayoutRequest_findByIdAndUpdate_def split: option.split)

lemma distinct_handle:
  "distinct (map email (users d)) \<Longrightarrow>
   distinct (map email (users (fst (snd (handle lib cfg e rq d s)))))"
  by (cases rq)
    (simp_all add: split_beta distinct_post_register users_post_payout_request users_get_r
      users_post_approve users_post_reject)

lemma distinct_step:
  "distinct (map email (users (store sys))) \<Longrightarrow>
   distinct (map email (users (store (step lib ev sys))))"
  by (cases ev) (simp_all add: step_def split_beta distinct_handle distinct_ensureAdminUser)

lemma emails_stay_distinct:
  "distinct (map email (users (store sys))) \<Longrightarrow>
   distinct (map email (users (store (run lib evs sys))))"
  unfolding run_def by (induction evs arbitrary: sys) (simp_all add: distinct_step)

lemma emails_distinct_from_empty:
  "distinct (map email (users (store (run lib evs initial_system))))"
  by (rule emails_stay_distinct) (simp add: initial_system_def empty_db_def)

end
